theory Spec2Isabelle
  imports Complex_Main
begin

section \<open>Python values and the conversions \<open>int()\<close> and \<open>float()\<close>\<close>

text \<open>
  The three handlers of the repository read one query parameter and convert it:
  \<^verbatim>\<open>int(request.args.get('delay') or 1)\<close> in \<open>flask_app/app.py\<close>,
  \<^verbatim>\<open>float(request.args.get('delay') or 1)\<close> in \<open>flask_app/db.py\<close> and
  \<^verbatim>\<open>float(request.query.get('delay') or 1)\<close> in \<open>slow_api/api.py\<close>.
  The argument of the conversion is either the parameter's text or the integer \<open>1\<close>.

  A text is a \<open>string\<close>: the characters are the code points below 256. A float is
  the number its text denotes, or an infinity, or not-a-number; the rounding of a long
  decimal to the nearest double is not part of the model.
\<close>

datatype exn = ValueError

datatype pyfloat = Finite rat | PosInf | NegInf | NaN

datatype pyval = PyStr string | PyInt int

subsection \<open>Characters\<close>

definition is_space :: "char \<Rightarrow> bool" where
  "is_space c = (let n = (of_char c :: nat) in
     (9 \<le> n \<and> n \<le> 13) \<or> (28 \<le> n \<and> n \<le> 32) \<or> n = 133 \<or> n = 160)"

definition is_digit :: "char \<Rightarrow> bool" where
  "is_digit c = (let n = (of_char c :: nat) in 48 \<le> n \<and> n \<le> 57)"

definition digit_val :: "char \<Rightarrow> nat" where
  "digit_val c = (of_char c :: nat) - 48"

definition lower :: "char \<Rightarrow> char" where
  "lower c = (let n = (of_char c :: nat) in if 65 \<le> n \<and> n \<le> 90 then char_of (n + 32) else c)"

text \<open>\<open>s.strip()\<close>: white space is dropped at both ends.\<close>

definition strip :: "string \<Rightarrow> string" where
  "strip s = rev (dropWhile is_space (rev (dropWhile is_space s)))"

text \<open>An optional sign; the flag says that it was a minus.\<close>

fun split_sign :: "string \<Rightarrow> bool \<times> string" where
  "split_sign [] = (False, [])"
| "split_sign (c # cs) =
     (if c = CHR ''-'' then (True, cs)
      else if c = CHR ''+'' then (False, cs)
      else (False, c # cs))"

text \<open>
  Underscores group digits: one is allowed only between two digits. The loop keeps the
  previous character (the null character at the start), refuses an underscore that
  does not follow a digit and a non-digit that follows an underscore, and refuses an
  underscore at the end. The result is the text without its underscores.
\<close>

fun drop_underscores :: "char \<Rightarrow> string \<Rightarrow> string option" where
  "drop_underscores prev [] = (if prev = CHR ''_'' then None else Some [])"
| "drop_underscores prev (c # cs) =
     (if c = CHR ''_'' then
        (if is_digit prev then drop_underscores c cs else None)
      else if prev = CHR ''_'' \<and> \<not> is_digit c then None
      else map_option ((#) c) (drop_underscores c cs))"

text \<open>The number a row of decimal digits denotes, most significant digit first.\<close>

fun digits_val :: "nat \<Rightarrow> string \<Rightarrow> nat" where
  "digits_val acc [] = acc"
| "digits_val acc (c # cs) = digits_val (10 * acc + digit_val c) cs"

subsection \<open>\<open>int(text)\<close>\<close>

text \<open>
  Base ten: white space around, an optional sign, then digits (with single underscores
  between digits) up to the end. Anything else raises \<open>ValueError\<close>.
\<close>

definition int_of_str :: "string \<Rightarrow> exn + int" where
  "int_of_str s =
     (let (neg, body) = split_sign (strip s) in
      case drop_underscores (CHR 0x00) body of
        None \<Rightarrow> Inl ValueError
      | Some ds \<Rightarrow>
          if ds = [] \<or> \<not> list_all is_digit ds then Inl ValueError
          else Inr (if neg then - int (digits_val 0 ds) else int (digits_val 0 ds)))"

subsection \<open>\<open>float(text)\<close>\<close>

text \<open>
  The exponent part of a float: nothing, or \<open>e\<close> or \<open>E\<close>, an optional sign and at
  least one digit, up to the end.
\<close>

definition exponent_of :: "string \<Rightarrow> int option" where
  "exponent_of r =
     (case r of
        [] \<Rightarrow> Some 0
      | c # cs \<Rightarrow>
          if c = CHR ''e'' \<or> c = CHR ''E'' then
            (let (neg, ds) = split_sign cs in
             if ds = [] \<or> \<not> list_all is_digit ds then None
             else Some (if neg then - int (digits_val 0 ds) else int (digits_val 0 ds)))
          else None)"

definition scale10 :: "nat \<Rightarrow> int \<Rightarrow> rat" where
  "scale10 m e = (if 0 \<le> e then of_nat m * 10 ^ nat e else of_nat m / 10 ^ nat (- e))"

text \<open>
  The magnitude: \<open>inf\<close>, \<open>infinity\<close> or \<open>nan\<close> in any case, or digits, an optional
  point, digits (at least one digit in all) and an exponent part.
\<close>

definition magnitude_of :: "string \<Rightarrow> pyfloat option" where
  "magnitude_of b =
     (let l = map lower b in
      if l = ''inf'' \<or> l = ''infinity'' then Some PosInf
      else if l = ''nan'' then Some NaN
      else
        (let ip = takeWhile is_digit b;
             r1 = dropWhile is_digit b;
             has_point = (r1 \<noteq> [] \<and> hd r1 = CHR ''.'');
             fp = (if has_point then takeWhile is_digit (tl r1) else []);
             r2 = (if has_point then dropWhile is_digit (tl r1) else r1)
         in if ip = [] \<and> fp = [] then None
            else case exponent_of r2 of
                   None \<Rightarrow> None
                 | Some e \<Rightarrow> Some (Finite (scale10 (digits_val 0 (ip @ fp)) (e - int (length fp))))))"

fun negate :: "pyfloat \<Rightarrow> pyfloat" where
  "negate (Finite q) = Finite (- q)"
| "negate PosInf = NegInf"
| "negate NegInf = PosInf"
| "negate NaN = NaN"

definition float_of_str :: "string \<Rightarrow> exn + pyfloat" where
  "float_of_str s =
     (let (neg, body) = split_sign (strip s) in
      case drop_underscores (CHR 0x00) body of
        None \<Rightarrow> Inl ValueError
      | Some b \<Rightarrow>
          (case magnitude_of b of
             None \<Rightarrow> Inl ValueError
           | Some v \<Rightarrow> Inr (if neg then negate v else v)))"

subsection \<open>The conversions on a value, and the default\<close>

fun py_int :: "pyval \<Rightarrow> exn + int" where
  "py_int (PyInt n) = Inr n"
| "py_int (PyStr s) = int_of_str s"

fun py_float :: "pyval \<Rightarrow> exn + pyfloat" where
  "py_float (PyInt n) = Inr (Finite (of_int n))"
| "py_float (PyStr s) = float_of_str s"

text \<open>
  \<^verbatim>\<open>request.args.get('delay') or 1\<close>: the parameter's text when it is there and not
  empty, the integer \<open>1\<close> when it is missing (\<open>None\<close>) or empty (both are falsy).
\<close>

definition delay_or_1 :: "string option \<Rightarrow> pyval" where
  "delay_or_1 a = (case a of None \<Rightarrow> PyInt 1 | Some s \<Rightarrow> if s = [] then PyInt 1 else PyStr s)"

text \<open>\<open>str(n)\<close> of an integer, as the f-string of \<open>app.py\<close> formats the delay.\<close>

fun str_nat :: "nat \<Rightarrow> string" where
  "str_nat n = (if n < 10 then [char_of (48 + n)] else str_nat (n div 10) @ [char_of (48 + n mod 10)])"

definition str_int :: "int \<Rightarrow> string" where
  "str_int n = (if n < 0 then CHR ''-'' # str_nat (nat (- n)) else str_nat (nat n))"

text \<open>\<open>delay/2\<close> on a float.\<close>

fun half :: "pyfloat \<Rightarrow> pyfloat" where
  "half (Finite q) = Finite (q / 2)"
| "half PosInf = PosInf"
| "half NegInf = NegInf"
| "half NaN = NaN"

section \<open>The world outside a handler\<close>

text \<open>
  A handler talks to the outside: it sleeps, calls the Delay Service over HTTP, and
  uses a database connection. The world keeps the wall clock in seconds, the calls made
  so far in program order, and the database connections that are open. A call returns
  a value, raises, or never returns.
\<close>

record response =
  status :: nat
  body :: string

datatype 'a outcome = Returns 'a | Raises exn | Hangs

datatype event =
    Sleep pyfloat
  | HttpGet string
  | DbConnect nat
  | DbCursor nat
  | DbExecute nat string "pyfloat list"
  | DbFetchall nat
  | DbClose nat


record world =
  now :: rat
  trace :: "event list"
  next_conn :: nat
  open_conns :: "nat list"

text \<open>
  What the deployment fixes: the port of the Delay Service (\<open>os.environ['PORT_API']\<close>),
  Python's text of a float (\<open>str(x)\<close>, used by the f-string of \<open>db.py\<close>), and the
  text of the rows the query returns (\<open>str(cur.fetchall())\<close>).
\<close>

record env =
  port_api :: string
  float_str :: "pyfloat \<Rightarrow> string"
  rows_str :: string

text \<open>Sequencing: the next call runs only when the one before has returned.\<close>

fun and_then :: "world \<times> 'a outcome \<Rightarrow> ('a \<Rightarrow> world \<Rightarrow> world \<times> 'b outcome) \<Rightarrow> world \<times> 'b outcome" where
  "and_then (w, Returns x) f = f x w"
| "and_then (w, Raises e) f = (w, Raises e)"
| "and_then (w, Hangs) f = (w, Hangs)"

fun convert :: "exn + 'a \<Rightarrow> world \<Rightarrow> world \<times> 'a outcome" where
  "convert (Inl e) w = (w, Raises e)"
| "convert (Inr x) w = (w, Returns x)"

definition emit :: "event \<Rightarrow> world \<Rightarrow> world" where
  "emit ev w = w\<lparr>trace := trace w @ [ev]\<rparr>"

text \<open>
  How long a sleep of \<open>d\<close> seconds takes: \<open>d\<close> when it is positive, no time when it is
  not (or not a number), and for ever when it is infinite. Both \<open>asyncio.sleep\<close> and
  the database's \<open>pg_sleep\<close> behave so.
\<close>

fun sleep_secs :: "pyfloat \<Rightarrow> rat option" where
  "sleep_secs (Finite q) = Some (max 0 q)"
| "sleep_secs PosInf = None"
| "sleep_secs NegInf = Some 0"
| "sleep_secs NaN = Some 0"

definition block_for :: "pyfloat \<Rightarrow> world \<Rightarrow> world \<times> unit outcome" where
  "block_for d w =
     (case sleep_secs d of
        None \<Rightarrow> (w, Hangs)
      | Some t \<Rightarrow> (w\<lparr>now := now w + t\<rparr>, Returns ()))"

definition asyncio_sleep :: "pyfloat \<Rightarrow> world \<Rightarrow> world \<times> unit outcome" where
  "asyncio_sleep d w = block_for d (emit (Sleep d) w)"

section \<open>The Delay Service (\<open>slow_api/api.py\<close>)\<close>

text \<open>
  \<^verbatim>\<open>
  async def handle(request):
      delay = float(request.query.get('delay') or 1)
      await asyncio.sleep(delay)
      return web.Response(text='slow api response')
  \<close>
\<close>

definition handle :: "string option \<Rightarrow> world \<Rightarrow> world \<times> response outcome" where
  "handle q w =
     and_then (convert (py_float (delay_or_1 q)) w) (\<lambda>delay w1.
     and_then (asyncio_sleep delay w1) (\<lambda>_ w2.
     (w2, Returns \<lparr>status = 200, body = ''slow api response''\<rparr>)))"

text \<open>
  The web framework around the handler: an exception that the handler does not catch
  becomes the framework's own answer with status 500.
\<close>

definition server_error :: response where
  "server_error = \<lparr>status = 500,
     body = ''500 Internal Server Error'' @ [CHR 0x0A, CHR 0x0A] @ ''Server got itself in trouble''\<rparr>"

fun served :: "world \<times> response outcome \<Rightarrow> world \<times> response outcome" where
  "served (w, Raises e) = (w, Returns server_error)"
| "served (w, r) = (w, r)"

section \<open>The outbound call of the Front Service\<close>

text \<open>
  \<^verbatim>\<open>api_url = f'http://slow_api:{api_port}/'\<close>. The call \<open>requests.get(url)\<close> is
  answered by the Delay Service: it reads \<open>delay\<close> back from the query of the URL, where
  a plus sign stands for a space, and runs its handler. The call returns when the whole
  answer is there, whatever its status. The network takes no time and does not fail.
\<close>

definition api_url :: "env \<Rightarrow> string" where
  "api_url e = ''http://slow_api:'' @ port_api e @ ''/''"

text \<open>The URL both variants build: \<^verbatim>\<open>f'{api_url}?delay={...}'\<close>, with the text of the number.\<close>

definition delay_url :: "env \<Rightarrow> string \<Rightarrow> string" where
  "delay_url e t = api_url e @ ''?delay='' @ t"

definition unplus :: "char \<Rightarrow> char" where
  "unplus c = (if c = CHR ''+'' then CHR '' '' else c)"

definition query_delay :: "env \<Rightarrow> string \<Rightarrow> string option" where
  "query_delay e url =
     (let p = api_url e @ ''?delay='' in
      if take (length p) url = p then Some (map unplus (drop (length p) url)) else None)"

definition requests_get :: "env \<Rightarrow> string \<Rightarrow> world \<Rightarrow> world \<times> response outcome" where
  "requests_get e url w = served (handle (query_delay e url) (emit (HttpGet url) w))"

section \<open>The Front Service, API variant (\<open>flask_app/app.py\<close>)\<close>

text \<open>
  \<^verbatim>\<open>
  def index():
      delay = int(request.args.get('delay') or 1)
      resp = requests.get(f'{api_url}?delay={delay}')
      return 'Hi there! ' + resp.text
  \<close>
\<close>

definition app_index :: "env \<Rightarrow> string option \<Rightarrow> world \<Rightarrow> world \<times> response outcome" where
  "app_index e q w =
     and_then (convert (py_int (delay_or_1 q)) w) (\<lambda>delay w1.
     and_then (requests_get e (delay_url e (str_int delay)) w1) (\<lambda>resp w2.
     (w2, Returns \<lparr>status = 200, body = ''Hi there! '' @ body resp\<rparr>)))"

section \<open>The Front Service, Database variant (\<open>flask_app/db.py\<close>)\<close>

text \<open>
  \<^verbatim>\<open>
  def index():
      conn = psycopg2.connect(user="example", password="example", host="postgres")
      delay = float(request.args.get('delay') or 1)
      resp = requests.get(f'{api_url}?delay={delay/2}')
      cur = conn.cursor()
      cur.execute("SELECT pg_sleep(%s), NOW()", (delay/2,))
      return 'Hi there! {} {}'.format(resp.text, cur.fetchall())
  \<close>
  The database is reachable. \<open>connect\<close> opens a connection of its own for each call;
  the only statement ever executed is the one above, for which the database sleeps for
  its parameter before it answers.
\<close>

definition psycopg2_connect :: "world \<Rightarrow> world \<times> nat outcome" where
  "psycopg2_connect w =
     (let c = next_conn w in
      (emit (DbConnect c) (w\<lparr>next_conn := Suc c, open_conns := open_conns w @ [c]\<rparr>), Returns c))"

definition conn_cursor :: "nat \<Rightarrow> world \<Rightarrow> world \<times> nat outcome" where
  "conn_cursor c w = (emit (DbCursor c) w, Returns c)"

definition cur_execute :: "nat \<Rightarrow> string \<Rightarrow> pyfloat list \<Rightarrow> world \<Rightarrow> world \<times> unit outcome" where
  "cur_execute c sql params w =
     (let w1 = emit (DbExecute c sql params) w in
      case params of [d] \<Rightarrow> block_for d w1 | _ \<Rightarrow> (w1, Returns ()))"

definition cur_fetchall :: "env \<Rightarrow> nat \<Rightarrow> world \<Rightarrow> world \<times> string outcome" where
  "cur_fetchall e c w = (emit (DbFetchall c) w, Returns (rows_str e))"

definition db_index :: "env \<Rightarrow> string option \<Rightarrow> world \<Rightarrow> world \<times> response outcome" where
  "db_index e q w =
     and_then (psycopg2_connect w) (\<lambda>conn w1.
     and_then (convert (py_float (delay_or_1 q)) w1) (\<lambda>delay w2.
     and_then (requests_get e (delay_url e (float_str e (half delay))) w2) (\<lambda>resp w3.
     and_then (conn_cursor conn w3) (\<lambda>cur w4.
     and_then (cur_execute cur ''SELECT pg_sleep(%s), NOW()'' [half delay] w4) (\<lambda>_ w5.
     and_then (cur_fetchall e cur w5) (\<lambda>rows w6.
     (w6, Returns \<lparr>status = 200, body = ''Hi there! '' @ body resp @ '' '' @ rows\<rparr>)))))))"



section \<open>Assumptions on the deployment, and an example\<close>




section \<open>Basic facts\<close>

lemma exn_is_ValueError: "(x :: exn) = ValueError"
  by (cases x) simp





subsection \<open>The conversions\<close>







declare str_nat.simps [simp del]

lemma of_char_digit: "(n::nat) < 10 \<Longrightarrow> (of_char (char_of (48 + n)) :: nat) = 48 + n"
  by simp












subsection \<open>The handlers on a delay that converts\<close>

lemma float_of_str_empty: "float_of_str [] = Inl ValueError"
  by code_simp

lemma int_of_str_empty: "int_of_str [] = Inl ValueError"
  by code_simp


lemma py_int_text: "int_of_str s = Inr n \<Longrightarrow> py_int (delay_or_1 (Some s)) = Inr n"
  by (cases "s = []") (simp_all add: int_of_str_empty delay_or_1_def)






subsection \<open>What a call leaves unchanged\<close>

lemma served_fst: "fst (served p) = fst p"
  by (cases p rule: served.cases) simp_all

lemma served_not_Raises: "snd (served p) \<noteq> Raises x"
  by (cases p rule: served.cases) simp_all

lemma block_for_frame:
  "\<exists>t. fst (block_for d w) = w\<lparr>now := t\<rparr> \<and> snd (block_for d w) \<noteq> Raises x"
  by (cases "sleep_secs d") (auto simp: block_for_def intro: exI [of _ "now w"])

lemma handle_frame:
  "\<exists>t evs. fst (handle q w) = w\<lparr>now := t, trace := trace w @ evs\<rparr> \<and> set evs \<subseteq> range Sleep"
proof (cases "py_float (delay_or_1 q)")
  case (Inl a)
  then have "fst (handle q w) = w\<lparr>now := now w, trace := trace w @ []\<rparr>"
    by (simp add: handle_def)
  then show ?thesis by (metis empty_set empty_subsetI)
next
  case (Inr d)
  obtain t where t: "fst (block_for d (emit (Sleep d) w)) = (emit (Sleep d) w)\<lparr>now := t\<rparr>"
    using block_for_frame by blast
  have "fst (handle q w) = fst (block_for d (emit (Sleep d) w))"
  proof (cases "block_for d (emit (Sleep d) w)")
    case (Pair w1 r)
    then show ?thesis using Inr by (cases r) (simp_all add: handle_def asyncio_sleep_def)
  qed
  then have "fst (handle q w) = w\<lparr>now := t, trace := trace w @ [Sleep d]\<rparr>"
    using t by (simp add: emit_def)
  moreover have "set [Sleep d] \<subseteq> range Sleep" by simp
  ultimately show ?thesis by blast
qed

lemma requests_get_frame:
  "\<exists>t evs. fst (requests_get e url w) = w\<lparr>now := t, trace := trace w @ HttpGet url # evs\<rparr>
     \<and> set evs \<subseteq> range Sleep"
proof -
  obtain t evs where
    "fst (handle (query_delay e url) (emit (HttpGet url) w)) =
       (emit (HttpGet url) w)\<lparr>now := t, trace := trace (emit (HttpGet url) w) @ evs\<rparr>"
    and "set evs \<subseteq> range Sleep"
    using handle_frame by blast
  then show ?thesis
    by (auto simp: requests_get_def served_fst emit_def)
qed

lemma requests_get_not_Raises: "snd (requests_get e url w) \<noteq> Raises x"
  by (simp add: requests_get_def served_not_Raises)

lemma db_index_frame:
  "\<exists>t evs. fst (db_index e q w) =
       w\<lparr>now := t, trace := trace w @ DbConnect (next_conn w) # evs,
         next_conn := Suc (next_conn w), open_conns := open_conns w @ [next_conn w]\<rparr>
     \<and> (\<forall>c. DbClose c \<notin> set evs) \<and> (\<forall>c. DbConnect c \<notin> set evs)"
proof -
  define c where "c = next_conn w"
  define w1 where "w1 = emit (DbConnect c) (w\<lparr>next_conn := Suc c, open_conns := open_conns w @ [c]\<rparr>)"
  have conn: "psycopg2_connect w = (w1, Returns c)"
    by (simp add: psycopg2_connect_def Let_def c_def w1_def)
  have w1: "w1 = w\<lparr>now := now w, trace := trace w @ DbConnect c # [],
         next_conn := Suc c, open_conns := open_conns w @ [c]\<rparr>"
    by (simp add: w1_def emit_def)
  show ?thesis
  proof (cases "py_float (delay_or_1 q)")
    case (Inl a)
    then have "fst (db_index e q w) = w1"
      by (simp add: db_index_def conn)
    then show ?thesis unfolding w1 c_def by (intro exI [of _ "now w"] exI [of _ "[]"]) simp
  next
    case (Inr d)
    define url where "url = delay_url e (float_str e (half d))"
    obtain w2 r where rg: "requests_get e url w1 = (w2, r)" by (cases "requests_get e url w1")
    obtain t evs where w2: "w2 = w1\<lparr>now := t, trace := trace w1 @ HttpGet url # evs\<rparr>"
      and evs: "set evs \<subseteq> range Sleep"
      using requests_get_frame [of e url w1] rg by auto
    have r: "r \<noteq> Raises x" for x using requests_get_not_Raises [of e url w1 x] rg by simp
    have noclose: "\<And>k. DbClose k \<notin> set evs" "\<And>k. DbConnect k \<notin> set evs" using evs by auto
    show ?thesis
    proof (cases r)
      case (Returns resp)
      define w4 where "w4 = emit (DbExecute c ''SELECT pg_sleep(%s), NOW()'' [half d]) (emit (DbCursor c) w2)"
      obtain w5 r5 where bf: "block_for (half d) w4 = (w5, r5)" by (cases "block_for (half d) w4")
      obtain t' where w5: "w5 = w4\<lparr>now := t'\<rparr>" and r5: "r5 \<noteq> Raises ValueError"
        using block_for_frame [of "half d" w4 ValueError] bf by auto
      show ?thesis
      proof (cases r5)
        case (Returns u)
        have "fst (db_index e q w) = emit (DbFetchall c) w5"
          using Inr rg \<open>r = Returns resp\<close> bf Returns
          by (simp add: db_index_def conn url_def conn_cursor_def cur_execute_def w4_def cur_fetchall_def)
        then have "fst (db_index e q w) = w\<lparr>now := t', trace := trace w @ DbConnect c #
             (HttpGet url # evs @ [DbCursor c, DbExecute c ''SELECT pg_sleep(%s), NOW()'' [half d], DbFetchall c]),
             next_conn := Suc c, open_conns := open_conns w @ [c]\<rparr>"
          by (simp add: w5 w4_def w2 w1 emit_def)
        then show ?thesis unfolding c_def using noclose by (intro exI conjI) (assumption, auto)
      next
        case (Raises a)
        then show ?thesis using r5 by (simp add: exn_is_ValueError [of a])
      next
        case Hangs
        have "fst (db_index e q w) = w5"
          using Inr rg \<open>r = Returns resp\<close> bf Hangs
          by (simp add: db_index_def conn url_def conn_cursor_def cur_execute_def w4_def)
        then have "fst (db_index e q w) = w\<lparr>now := t', trace := trace w @ DbConnect c #
             (HttpGet url # evs @ [DbCursor c, DbExecute c ''SELECT pg_sleep(%s), NOW()'' [half d]]),
             next_conn := Suc c, open_conns := open_conns w @ [c]\<rparr>"
          by (simp add: w5 w4_def w2 w1 emit_def)
        then show ?thesis unfolding c_def using noclose by (intro exI conjI) (assumption, auto)
      qed
    next
      case (Raises a)
      then show ?thesis using r by simp
    next
      case Hangs
      have "fst (db_index e q w) = w2"
        using Inr rg Hangs by (simp add: db_index_def conn url_def)
      then have "fst (db_index e q w) = w\<lparr>now := t, trace := trace w @ DbConnect c # (HttpGet url # evs),
             next_conn := Suc c, open_conns := open_conns w @ [c]\<rparr>"
        by (simp add: w2 w1)
      then show ?thesis unfolding c_def using noclose by (intro exI conjI) (assumption, auto)
    qed
  qed
qed



section \<open>The default delay\<close>


text \<open>
  Claim C10. A \<open>delay\<close> parameter that is there but empty is treated as a missing one
  in all three services: \<open>or\<close> replaces it by 1 before the conversion, the conversions
  yield 1 and raise nothing, and each handler does what it does without the parameter.
  The empty text itself would not convert.
\<close>

theorem empty_delay_like_missing:
  "delay_or_1 (Some []) = delay_or_1 None \<and>
   py_int (delay_or_1 (Some [])) = Inr 1 \<and>
   py_float (delay_or_1 (Some [])) = Inr (Finite 1) \<and>
   handle (Some []) w = handle None w \<and>
   app_index e (Some []) w = app_index e None w \<and>
   db_index e (Some []) w = db_index e None w \<and>
   int_of_str [] = Inl ValueError \<and> float_of_str [] = Inl ValueError"
  by (simp add: delay_or_1_def handle_def app_index_def db_index_def
      int_of_str_empty float_of_str_empty)

section \<open>A delay that is not a number\<close>







section \<open>The Delay Service\<close>



section \<open>The latency of the Database variant\<close>




section \<open>The API variant\<close>






section \<open>The Database variant\<close>



text \<open>
  Claim C8. Every run of the Database variant's handler, whatever the request and
  however the run ends, opens one more connection, and that connection is still open
  when the run ends: nothing in what the handler does closes a connection.
\<close>

theorem db_connection_never_closed:
  "\<exists>t evs. fst (db_index e q w) =
       w\<lparr>now := t, trace := trace w @ DbConnect (next_conn w) # evs,
         next_conn := Suc (next_conn w), open_conns := open_conns w @ [next_conn w]\<rparr>
     \<and> (\<forall>c. DbClose c \<notin> set evs)"
  using db_index_frame [of e q w] by blast

end
